theory Spec2Isabelle
  imports Main "HOL-Library.AList"
begin

section \<open>The Amazons game server (index.js)\<close>

text \<open>
  The server keeps three process-wide registries, \<^verbatim>\<open>clients\<close>, \<^verbatim>\<open>match_invites\<close> and
  \<^verbatim>\<open>matches\<close>, and registers one group of socket.io handlers per connection. Every
  handler runs to completion on the event loop, so a handler is a function from the
  registries to the registries and the list of things it emits. The classes
  \<^verbatim>\<open>Client\<close>, \<^verbatim>\<open>Board\<close> and \<^verbatim>\<open>Amazons\<close> live in \<^verbatim>\<open>public/js\<close>; their methods are
  parameters of the model (the record \<open>engine\<close> below). Console logging is left out.
\<close>

subsection \<open>JavaScript values and objects\<close>

text \<open>
  A seat index read from the engine is a number or \<^verbatim>\<open>undefined\<close>/\<^verbatim>\<open>null\<close> (\<open>None\<close>);
  on such values \<^verbatim>\<open>==\<close> is equality. A coordinate is the pair of the integer fields
  \<^verbatim>\<open>x\<close> and \<^verbatim>\<open>y\<close>. A string is a list of characters, one per UTF-16 code unit.
\<close>

type_synonym seat = "int option"
type_synonym coord = "int \<times> int"
type_synonym sock = nat

datatype error = TypeError

text \<open>
  The registries are plain objects (\<^verbatim>\<open>{}\<close>). Reading \<^verbatim>\<open>obj[k]\<close> finds an own property,
  or else a property inherited from \<^verbatim>\<open>Object.prototype\<close> (a function or an object, so a
  truthy value without the fields of a registry entry), or else \<^verbatim>\<open>undefined\<close>.
\<close>

definition Object_prototype :: "string list" where
  "Object_prototype =
     [''constructor'', ''__defineGetter__'', ''__defineSetter__'', ''hasOwnProperty'',
      ''__lookupGetter__'', ''__lookupSetter__'', ''isPrototypeOf'',
      ''propertyIsEnumerable'', ''toString'', ''valueOf'', ''__proto__'',
      ''toLocaleString'']"

datatype 'a jsprop = Own 'a | Inherited | Absent

definition js_get :: "(string \<rightharpoonup> 'a) \<Rightarrow> string \<Rightarrow> 'a jsprop" where
  "js_get obj k =
     (case obj k of
        Some v \<Rightarrow> Own v
      | None \<Rightarrow> if k \<in> set Object_prototype then Inherited else Absent)"

text \<open>A string is truthy when it is there and not empty.\<close>

fun truthy :: "string option \<Rightarrow> bool" where
  "truthy None = False"
| "truthy (Some s) = (s \<noteq> [])"

subsection \<open>Identifiers\<close>

text \<open>
  \<^verbatim>\<open>genID(type=null)\<close> appends to \<^verbatim>\<open>type + '_'\<close> (to \<^verbatim>\<open>'_'\<close> alone when \<^verbatim>\<open>type\<close> is falsy)
  the text \<^verbatim>\<open>Math.random().toString(36).substr(2, 9)\<close>. The generator is the function
  \<open>rand\<close>: \<open>rand n\<close> is the text obtained from the \<open>n\<close>-th draw, and the number of
  draws made so far is threaded through.
\<close>

definition genID :: "(nat \<Rightarrow> string) \<Rightarrow> string option \<Rightarrow> nat \<Rightarrow> string \<times> nat" where
  "genID rand type n =
     (if truthy type then (the type @ ''_'' @ rand n, Suc n)
      else (''_'' @ rand n, Suc n))"

subsection \<open>Data\<close>

record client =
  client_id :: string
  username :: "string option"

record invite =
  inv_from :: string
  inv_to :: string

record player =
  pid :: string
  ptype :: string
  accepted :: string

record piece =
  px :: int
  py :: int
  owner :: int

text \<open>
  \<open>piece_config\<close> is the array \<^verbatim>\<open>JSON.parse(settings.piece_config)\<close> returns;
  \<open>board_size\<close> and \<open>turn_timer\<close> are the values of \<^verbatim>\<open>parseInt\<close>.
\<close>

record settings =
  players :: "player list"
  piece_config :: "piece list"
  board_size :: int
  turn_timer :: int

record tile =
  tile_owner :: seat

record move_data =
  mv_match_id :: string
  mv_from :: coord
  mv_to :: coord

record burn_data =
  bn_match_id :: string
  bn_tile :: coord

text \<open>What a handler sends, and the calls into a match that send for it.\<close>

datatype event =
    Username_set string
  | Users_list "(string \<times> string option) list"
  | Error_message string
  | Invite_response "string option" string string
  | Move_success coord
  | Burn_success

datatype effect =
    Emit sock event
  | Io_emit event
  | Db_select sock string
  | Game_begin string
  | Game_emitBoard string

text \<open>
  A client object is shared by the closure of its connection and by the registry, so the
  objects live in a store indexed by connection (\<open>objs\<close>) and \<open>clients\<close> maps an id to
  the connection whose object it holds, in insertion order (the order of
  \<^verbatim>\<open>Object.keys\<close>).
\<close>

record 'g server =
  objs :: "sock \<Rightarrow> client"
  clients :: "(string \<times> sock) list"
  match_invites :: "string \<rightharpoonup> invite"
  matches :: "string \<rightharpoonup> 'g"

text \<open>
  The methods and fields of \<^verbatim>\<open>Client\<close>, \<^verbatim>\<open>Board\<close> and \<^verbatim>\<open>Amazons\<close> that index.js uses.
  \<open>board_of g\<close> is \<^verbatim>\<open>g.board.board\<close>, \<open>turn g\<close> is \<^verbatim>\<open>g.turn\<close>; \<open>attemptMove\<close> and
  \<open>attemptBurn\<close> return their (truthy or falsy) result and the match as they leave it.
\<close>

record ('g, 'b) engine =
  setUsername :: "string \<Rightarrow> client \<Rightarrow> client"
  new_Board :: "int \<Rightarrow> piece list \<Rightarrow> 'b"
  new_Amazons :: "string \<Rightarrow> player list \<Rightarrow> 'b \<Rightarrow> int \<Rightarrow> 'g"
  setPlayer :: "string \<Rightarrow> nat \<Rightarrow> 'g \<Rightarrow> 'g"
  game_begin :: "(string \<times> sock) list \<Rightarrow> 'g \<Rightarrow> 'g"
  board_of :: "'g \<Rightarrow> tile list list"
  turn :: "'g \<Rightarrow> seat"
  getInternalId :: "'g \<Rightarrow> string \<Rightarrow> seat"
  attemptMove :: "coord \<Rightarrow> coord \<Rightarrow> 'g \<Rightarrow> bool \<times> 'g"
  attemptBurn :: "coord \<Rightarrow> 'g \<Rightarrow> bool \<times> 'g"

text \<open>
  A handler that throws does so before it has changed a registry or emitted anything:
  its result is then \<open>Inl\<close> of the error.
\<close>

type_synonym 'g outcome = "error + 'g server \<times> effect list"

definition final_state :: "'g server \<Rightarrow> 'g outcome \<Rightarrow> 'g server" where
  "final_state st r = (case r of Inl e \<Rightarrow> st | Inr (st', es) \<Rightarrow> st')"

definition emitted :: "'g outcome \<Rightarrow> effect list" where
  "emitted r = (case r of Inl e \<Rightarrow> [] | Inr (st', es) \<Rightarrow> es)"

subsection \<open>set\_username\<close>

text \<open>
  The list sent as \<^verbatim>\<open>users_list\<close>: the keys of \<^verbatim>\<open>clients\<close> whose object has a truthy
  username, each with the id and the username of that object.
\<close>

definition users_info :: "'g server \<Rightarrow> (string \<times> string option) list" where
  "users_info st =
     map (\<lambda>c. (client_id (objs st c), username (objs st c)))
       (filter (\<lambda>c. truthy (username (objs st c)))
          (List.map_filter (map_of (clients st)) (map fst (clients st))))"

definition username_error :: string where
  "username_error = ''Username must be 3 to 20 characters long (inclusive)''"

text \<open>
  The database query is issued first and answers in a later turn of the event loop; it is
  recorded as \<open>Db_select\<close>.
\<close>

definition set_username ::
  "('g, 'b) engine \<Rightarrow> sock \<Rightarrow> string \<Rightarrow> 'g server \<Rightarrow> 'g server \<times> effect list" where
  "set_username eng s name st =
     (if length name \<ge> 3 \<and> length name \<le> 20 then
        (let st' = st\<lparr>objs := (objs st)(s := setUsername eng name (objs st s))\<rparr>
         in (st', [Db_select s name, Emit s (Username_set name),
                   Io_emit (Users_list (users_info st'))]))
      else (st, [Emit s (Error_message username_error)]))"

subsection \<open>match\_accept and match\_decline\<close>

text \<open>
  Both handlers read \<^verbatim>\<open>match_invites[id].from\<close> first: that throws when the id names
  nothing, and is \<^verbatim>\<open>undefined\<close> when the id names an inherited property (then the key
  looked up in \<^verbatim>\<open>clients\<close> is the text \<^verbatim>\<open>undefined\<close>). A truthy \<^verbatim>\<open>clients\<close> entry that is
  not a client has no \<^verbatim>\<open>socket\<close>, and emitting on it throws.
\<close>

definition invite_reply ::
  "string \<Rightarrow> string \<Rightarrow> 'g server \<Rightarrow> 'g outcome" where
  "invite_reply response match_invite_id st =
     (case js_get (match_invites st) match_invite_id of
        Absent \<Rightarrow> Inl TypeError
      | Inherited \<Rightarrow>
          (case js_get (map_of (clients st)) ''undefined'' of
             Absent \<Rightarrow> Inr (st, [])
           | Inherited \<Rightarrow> Inl TypeError
           | Own r \<Rightarrow> Inr (st, [Emit r (Invite_response None match_invite_id response)]))
      | Own iv \<Rightarrow>
          (case js_get (map_of (clients st)) (inv_from iv) of
             Absent \<Rightarrow> Inr (st, [])
           | Inherited \<Rightarrow> Inl TypeError
           | Own r \<Rightarrow>
               Inr (st\<lparr>match_invites := (match_invites st)(match_invite_id := None)\<rparr>,
                    [Emit r (Invite_response (Some (inv_to iv)) match_invite_id response)])))"

definition match_accept :: "string \<Rightarrow> 'g server \<Rightarrow> 'g outcome" where
  "match_accept match_invite_id st = invite_reply ''accepted'' match_invite_id st"

definition match_decline :: "string \<Rightarrow> 'g server \<Rightarrow> 'g outcome" where
  "match_decline match_invite_id st = invite_reply ''declined'' match_invite_id st"

subsection \<open>match\_start\<close>

text \<open>
  The first loop counts the players that accepted and collects them in \<open>players_real\<close>;
  a bot among them has its id replaced by \<^verbatim>\<open>genID(id)\<close> first.
\<close>

fun collect_players ::
  "(nat \<Rightarrow> string) \<Rightarrow> player list \<Rightarrow> nat \<Rightarrow> player list \<Rightarrow> nat \<Rightarrow> nat \<times> player list \<times> nat" where
  "collect_players rand [] n_players players_real k = (n_players, players_real, k)"
| "collect_players rand (p # ps) n_players players_real k =
     (if accepted p = ''accepted'' then
        (if ptype p = ''bot'' then
           (case genID rand (Some (pid p)) k of
              (i, k') \<Rightarrow>
                collect_players rand ps (n_players + 1) (players_real @ [p\<lparr>pid := i\<rparr>]) k')
         else collect_players rand ps (n_players + 1) (players_real @ [p]) k)
      else collect_players rand ps n_players players_real k)"

text \<open>The second loop: the largest owner of a piece, starting from 0.\<close>

fun correct_players :: "piece list \<Rightarrow> int \<Rightarrow> int" where
  "correct_players [] c = c"
| "correct_players (p # ps) c =
     (if owner p > c then correct_players ps (owner p) else correct_players ps c)"

text \<open>The third loop registers seat \<open>i\<close> for the \<open>i\<close>-th collected player, twice.\<close>

definition set_players :: "('g, 'b) engine \<Rightarrow> player list \<Rightarrow> nat \<Rightarrow> 'g \<Rightarrow> 'g" where
  "set_players eng players_real n_players game =
     fold (\<lambda>i g. setPlayer eng (pid (players_real ! i)) i
                   (setPlayer eng (pid (players_real ! i)) i g))
       [0..<n_players] game"

definition match_start ::
  "('g, 'b) engine \<Rightarrow> (nat \<Rightarrow> string) \<Rightarrow> settings \<Rightarrow> 'g server \<times> nat \<Rightarrow>
     ('g server \<times> nat) \<times> effect list" where
  "match_start eng rand cfg stk =
     (case stk of (st, k) \<Rightarrow>
      (case collect_players rand (players cfg) 0 [] k of
         (n_players, players_real, k1) \<Rightarrow>
           (let pieces = piece_config cfg in
            if int n_players \<noteq> correct_players pieces 0 + 1 then ((st, k1), [])
            else
              (case genID rand (Some ''match'') k1 of
                 (match_id, k2) \<Rightarrow>
                   (let board = new_Board eng (board_size cfg) pieces;
                        game = new_Amazons eng match_id players_real board (turn_timer cfg);
                        game1 = set_players eng players_real n_players game;
                        game2 = game_begin eng (clients st) game1
                    in ((st\<lparr>matches := (matches st)(match_id \<mapsto> game2)\<rparr>, k2),
                        [Game_begin match_id, Game_emitBoard match_id]))))))"

subsection \<open>attempt\_move and attempt\_burn\<close>

text \<open>
  \<^verbatim>\<open>a[i]\<close> on an array is \<^verbatim>\<open>undefined\<close> outside \<open>0 \<le> i < length\<close>, and reading a
  property of \<^verbatim>\<open>undefined\<close> throws: \<^verbatim>\<open>board[x][y].owner\<close> throws when the row or the
  tile is not there.
\<close>

definition js_index :: "'a list \<Rightarrow> int \<Rightarrow> 'a option" where
  "js_index xs i = (if 0 \<le> i \<and> i < int (length xs) then Some (xs ! nat i) else None)"

definition owner_at :: "tile list list \<Rightarrow> coord \<Rightarrow> error + seat" where
  "owner_at board c =
     (case js_index board (fst c) of
        None \<Rightarrow> Inl TypeError
      | Some row \<Rightarrow>
          (case js_index row (snd c) of
             None \<Rightarrow> Inl TypeError
           | Some t \<Rightarrow> Inr (tile_owner t)))"

text \<open>
  An inherited property passes the test \<^verbatim>\<open>!matches[data.match_id]\<close>; it has no
  \<^verbatim>\<open>board\<close> and no \<^verbatim>\<open>getInternalId\<close>, so the next line throws.
\<close>

definition attempt_move ::
  "('g, 'b) engine \<Rightarrow> sock \<Rightarrow> move_data \<Rightarrow> 'g server \<Rightarrow> 'g outcome" where
  "attempt_move eng s d st =
     (case js_get (matches st) (mv_match_id d) of
        Absent \<Rightarrow> Inr (st, [])
      | Inherited \<Rightarrow> Inl TypeError
      | Own g \<Rightarrow>
          (let board = board_of eng g;
               miid = getInternalId eng g (client_id (objs st s))
           in case owner_at board (mv_from d) of
                Inl e \<Rightarrow> Inl e
              | Inr ow \<Rightarrow>
                  if ow = miid \<and> turn eng g = miid then
                    (case attemptMove eng (mv_from d) (mv_to d) g of
                       (ok, g') \<Rightarrow>
                         (let st' = st\<lparr>matches := (matches st)(mv_match_id d \<mapsto> g')\<rparr>
                          in if ok then
                               Inr (st', [Emit s (Move_success (mv_to d)),
                                          Game_emitBoard (mv_match_id d)])
                             else Inr (st', [])))
                  else Inr (st, [])))"

definition attempt_burn ::
  "('g, 'b) engine \<Rightarrow> sock \<Rightarrow> burn_data \<Rightarrow> 'g server \<Rightarrow> 'g outcome" where
  "attempt_burn eng s d st =
     (case js_get (matches st) (bn_match_id d) of
        Absent \<Rightarrow> Inr (st, [])
      | Inherited \<Rightarrow> Inl TypeError
      | Own g \<Rightarrow>
          (let miid = getInternalId eng g (client_id (objs st s))
           in if turn eng g = miid then
                (case attemptBurn eng (bn_tile d) g of
                   (ok, g') \<Rightarrow>
                     (let st' = st\<lparr>matches := (matches st)(bn_match_id d \<mapsto> g')\<rparr>
                      in if ok then
                           Inr (st', [Emit s Burn_success, Game_emitBoard (bn_match_id d)])
                         else Inr (st', [])))
              else Inr (st, [])))"

subsection \<open>What the handlers are measured against\<close>

text \<open>The seats of a request: its players whose flag is \<^verbatim>\<open>accepted\<close>.\<close>

definition accepted_players :: "settings \<Rightarrow> player list" where
  "accepted_players cfg = filter (\<lambda>p. accepted p = ''accepted'') (players cfg)"

text \<open>
  The condition as the specification words it: the number of accepted seats equals the
  maximum owner index appearing in the piece configuration, plus one. Some piece \<open>m\<close>
  carries an owner that no piece exceeds, and the count is that owner plus one.
\<close>

definition seats_equal_max_owner_plus_one :: "settings \<Rightarrow> bool" where
  "seats_equal_max_owner_plus_one cfg =
     list_ex (\<lambda>m. list_all (\<lambda>p. owner p \<le> owner m) (piece_config cfg) \<and>
                   int (length (accepted_players cfg)) = owner m + 1)
       (piece_config cfg)"

text \<open>
  An attempt is accepted when the handler hands it to the match and the match returns a
  truthy result; a start is accepted when the two counts agree.
\<close>

definition move_accepted :: "('g, 'b) engine \<Rightarrow> sock \<Rightarrow> move_data \<Rightarrow> 'g server \<Rightarrow> bool" where
  "move_accepted eng s d st =
     (case matches st (mv_match_id d) of
        None \<Rightarrow> False
      | Some g \<Rightarrow>
          owner_at (board_of eng g) (mv_from d) =
            Inr (getInternalId eng g (client_id (objs st s))) \<and>
          turn eng g = getInternalId eng g (client_id (objs st s)) \<and>
          fst (attemptMove eng (mv_from d) (mv_to d) g))"

definition burn_accepted :: "('g, 'b) engine \<Rightarrow> sock \<Rightarrow> burn_data \<Rightarrow> 'g server \<Rightarrow> bool" where
  "burn_accepted eng s d st =
     (case matches st (bn_match_id d) of
        None \<Rightarrow> False
      | Some g \<Rightarrow>
          turn eng g = getInternalId eng g (client_id (objs st s)) \<and>
          fst (attemptBurn eng (bn_tile d) g))"

definition start_accepted :: "settings \<Rightarrow> bool" where
  "start_accepted cfg =
     (int (length (accepted_players cfg)) = correct_players (piece_config cfg) 0 + 1)"

text \<open>The number of board snapshots among the effects of a handler.\<close>

fun is_snapshot :: "effect \<Rightarrow> bool" where
  "is_snapshot (Game_emitBoard m) = True"
| "is_snapshot e = False"

definition snapshots :: "effect list \<Rightarrow> nat" where
  "snapshots es = length (filter is_snapshot es)"

text \<open>
  Modelled from the spec: \<^verbatim>\<open>attemptMove\<close> and \<^verbatim>\<open>attemptBurn\<close> of the match
  (public/js/amazons.js, not among the sources) perform no mutation on failure.
\<close>

definition rejects_cleanly :: "('g, 'b) engine \<Rightarrow> bool" where
  "rejects_cleanly eng =
     ((\<forall>a b g. \<not> fst (attemptMove eng a b g) \<longrightarrow> snd (attemptMove eng a b g) = g) \<and>
      (\<forall>c g. \<not> fst (attemptBurn eng c g) \<longrightarrow> snd (attemptBurn eng c g) = g))"

text \<open>
  A failure reason reaches the requester when some effect is an \<^verbatim>\<open>error_message\<close> on
  the requester's socket (the only event of index.js that reports a failure).
\<close>

fun is_failure_to :: "sock \<Rightarrow> effect \<Rightarrow> bool" where
  "is_failure_to s (Emit s' (Error_message m)) = (s' = s)"
| "is_failure_to s e = False"

definition failure_reported :: "sock \<Rightarrow> effect list \<Rightarrow> bool" where
  "failure_reported s es = list_ex (is_failure_to s) es"

text \<open>
  The seats the comment of the first loop describes: the accepted players in order, each
  bot carrying the id made from its requested id and a draw of its own, the draws taken
  one after the other from \<open>k\<close> on; every other player as requested.
\<close>

fun seats_from :: "(nat \<Rightarrow> string) \<Rightarrow> nat \<Rightarrow> player list \<Rightarrow> player list" where
  "seats_from rand k [] = []"
| "seats_from rand k (p # ps) =
     (if ptype p = ''bot'' then p\<lparr>pid := pid p @ ''_'' @ rand k\<rparr> # seats_from rand (Suc k) ps
      else p # seats_from rand k ps)"

definition bots :: "player list \<Rightarrow> player list" where
  "bots ps = filter (\<lambda>p. ptype p = ''bot'') ps"

text \<open>No bot among the players carries the id of a connected client.\<close>

definition bot_ids_unconnected :: "'g server \<Rightarrow> player list \<Rightarrow> bool" where
  "bot_ids_unconnected st ps =
     list_all (\<lambda>p. map_of (clients st) (pid p) = None) (filter (\<lambda>p. ptype p = ''bot'') ps)"

subsection \<open>A small engine and concrete states\<close>

text \<open>
  The theorems below hold for every engine. To run the handlers on concrete requests,
  the parameters are instantiated with a small engine: a match is its id, the players
  it was built with, the seats registered by \<^verbatim>\<open>setPlayer\<close>, a grid of tiles and the seat to play; a move to any free
  tile of the grid succeeds, a burn of a free tile marks it (owner \<open>-1\<close>) and passes the
  turn. It has no line-of-sight rule and is not the engine of the repository.
\<close>

record game =
  g_id :: string
  g_players :: "player list"
  g_seats :: "(string \<times> nat) list"
  g_board :: "tile list list"
  g_turn :: seat

definition demo_board :: "int \<Rightarrow> piece list \<Rightarrow> tile list list" where
  "demo_board n pieces =
     map (\<lambda>i. map (\<lambda>j. \<lparr>tile_owner =
                  map_option owner (find (\<lambda>p. px p = int i \<and> py p = int j) pieces)\<rparr>)
            [0..<nat n])
       [0..<nat n]"

definition demo_put :: "tile list list \<Rightarrow> coord \<Rightarrow> seat \<Rightarrow> tile list list" where
  "demo_put b c ow =
     b[nat (fst c) := (b ! nat (fst c))[nat (snd c) := \<lparr>tile_owner = ow\<rparr>]]"

definition demo_move :: "coord \<Rightarrow> coord \<Rightarrow> game \<Rightarrow> bool \<times> game" where
  "demo_move a b g =
     (if owner_at (g_board g) b = Inr None then
        (case owner_at (g_board g) a of
           Inr ow \<Rightarrow> (True, g\<lparr>g_board := demo_put (demo_put (g_board g) a None) b ow\<rparr>)
         | Inl e \<Rightarrow> (False, g))
      else (False, g))"

definition demo_burn :: "coord \<Rightarrow> game \<Rightarrow> bool \<times> game" where
  "demo_burn c g =
     (if owner_at (g_board g) c = Inr None then
        (True, g\<lparr>g_board := demo_put (g_board g) c (Some (- 1)),
                 g_turn := map_option (\<lambda>t. (t + 1) mod int (length (g_seats g))) (g_turn g)\<rparr>)
      else (False, g))"

definition demo :: "(game, tile list list) engine" where
  "demo =
     \<lparr>setUsername = (\<lambda>u c. c\<lparr>username := Some u\<rparr>),
      new_Board = demo_board,
      new_Amazons = (\<lambda>m ps b t. \<lparr>g_id = m, g_players = ps, g_seats = [], g_board = b, g_turn = Some 0\<rparr>),
      setPlayer = (\<lambda>i n g. g\<lparr>g_seats := AList.update i n (g_seats g)\<rparr>),
      game_begin = (\<lambda>cs g. g),
      board_of = g_board,
      turn = g_turn,
      getInternalId = (\<lambda>g i. map_option int (map_of (g_seats g) i)),
      attemptMove = demo_move,
      attemptBurn = demo_burn\<rparr>"

text \<open>Every draw of the generator gives the same text.\<close>

definition same_draw :: "nat \<Rightarrow> string" where
  "same_draw n = ''k3j9x0q2a''"

text \<open>
  Two clients are connected, on sockets 0 and 1. One invite is pending from the first to
  the second, another from a client that has left.
\<close>

definition lobby :: "game server" where
  "lobby =
     \<lparr>objs = (\<lambda>s. if s = 0 then \<lparr>client_id = ''_k3j9x0q2a'', username = Some ''ann''\<rparr>
                  else if s = 1 then \<lparr>client_id = ''_b7'', username = Some ''bob''\<rparr>
                  else \<lparr>client_id = [], username = None\<rparr>),
      clients = [(''_k3j9x0q2a'', 0), (''_b7'', 1)],
      match_invites =
        [''matchinvite_1'' \<mapsto> \<lparr>inv_from = ''_k3j9x0q2a'', inv_to = ''_b7''\<rparr>,
         ''matchinvite_2'' \<mapsto> \<lparr>inv_from = ''_gone'', inv_to = ''_b7''\<rparr>],
      matches = Map.empty\<rparr>"

text \<open>
  A 4 by 4 board with one piece per seat, at (0, 0) for seat 0 and at (3, 3) for
  seat 1, and the match of the two clients on it, seat 0 to play.
\<close>

definition duel_pieces :: "piece list" where
  "duel_pieces = [\<lparr>px = 0, py = 0, owner = 0\<rparr>, \<lparr>px = 3, py = 3, owner = 1\<rparr>]"

definition duel_cfg :: settings where
  "duel_cfg =
     \<lparr>players = [\<lparr>pid = ''_k3j9x0q2a'', ptype = ''human'', accepted = ''accepted''\<rparr>,
                 \<lparr>pid = ''_b7'', ptype = ''human'', accepted = ''accepted''\<rparr>],
      piece_config = duel_pieces, board_size = 4, turn_timer = 60\<rparr>"

definition duel :: game where
  "duel =
     \<lparr>g_id = ''match_k3j9x0q2a'', g_players = players duel_cfg, g_seats = [(''_k3j9x0q2a'', 0), (''_b7'', 1)],
      g_board = demo_board 4 duel_pieces, g_turn = Some 0\<rparr>"

definition playing :: "game server" where
  "playing = lobby\<lparr>matches := [''match_k3j9x0q2a'' \<mapsto> duel]\<rparr>"

text \<open>
  Requests on that match: seat 1 out of turn, from its piece and from outside the board,
  and seat 0 onto an occupied tile.
\<close>

definition off_turn_move :: move_data where
  "off_turn_move = \<lparr>mv_match_id = ''match_k3j9x0q2a'', mv_from = (3, 3), mv_to = (3, 0)\<rparr>"

definition off_turn_burn :: burn_data where
  "off_turn_burn = \<lparr>bn_match_id = ''match_k3j9x0q2a'', bn_tile = (1, 1)\<rparr>"

definition off_turn_outside :: move_data where
  "off_turn_outside = \<lparr>mv_match_id = ''match_k3j9x0q2a'', mv_from = (0, - 1), mv_to = (3, 0)\<rparr>"

definition blocked_move :: move_data where
  "blocked_move = \<lparr>mv_match_id = ''match_k3j9x0q2a'', mv_from = (0, 0), mv_to = (3, 3)\<rparr>"

text \<open>A request that starts from outside the board, and requests that name no match.\<close>

definition outside_move :: move_data where
  "outside_move = \<lparr>mv_match_id = ''match_k3j9x0q2a'', mv_from = (- 1, 0), mv_to = (0, 1)\<rparr>"

definition constructor_move :: move_data where
  "constructor_move = \<lparr>mv_match_id = ''constructor'', mv_from = (0, 0), mv_to = (0, 1)\<rparr>"

definition constructor_burn :: burn_data where
  "constructor_burn = \<lparr>bn_match_id = ''constructor'', bn_tile = (0, 1)\<rparr>"

text \<open>
  Start requests: one seat and no piece; no seat and a piece of owner \<open>-1\<close>; the board of
  the two clients when the second has declined; a client and a bot that comes without
  an id.
\<close>

definition solo_cfg :: settings where
  "solo_cfg =
     \<lparr>players = [\<lparr>pid = ''_k3j9x0q2a'', ptype = ''human'', accepted = ''accepted''\<rparr>],
      piece_config = [], board_size = 4, turn_timer = 60\<rparr>"

definition stray_cfg :: settings where
  "stray_cfg =
     \<lparr>players = [\<lparr>pid = ''_b7'', ptype = ''human'', accepted = ''pending''\<rparr>],
      piece_config = [\<lparr>px = 0, py = 0, owner = - 1\<rparr>], board_size = 4, turn_timer = 60\<rparr>"

definition short_cfg :: settings where
  "short_cfg =
     \<lparr>players = [\<lparr>pid = ''_k3j9x0q2a'', ptype = ''human'', accepted = ''accepted''\<rparr>,
                 \<lparr>pid = ''_b7'', ptype = ''human'', accepted = ''declined''\<rparr>],
      piece_config = duel_pieces, board_size = 4, turn_timer = 60\<rparr>"

definition bot_cfg :: settings where
  "bot_cfg =
     \<lparr>players = [\<lparr>pid = ''_b7'', ptype = ''human'', accepted = ''accepted''\<rparr>,
                 \<lparr>pid = [], ptype = ''bot'', accepted = ''accepted''\<rparr>],
      piece_config = duel_pieces, board_size = 4, turn_timer = 60\<rparr>"

section \<open>Properties\<close>

subsection \<open>Reading a registry\<close>

lemma js_get_Some: "obj k = Some v \<Longrightarrow> js_get obj k = Own v"
  by (simp add: js_get_def)

lemma js_get_None:
  "obj k = None \<Longrightarrow> js_get obj k = (if k \<in> set Object_prototype then Inherited else Absent)"
  by (simp add: js_get_def)

lemma genID_Some: "genID rand (Some t) n = (t @ ''_'' @ rand n, Suc n)"
  by (simp add: genID_def)

subsection \<open>Usernames\<close>

text \<open>
  The keys of \<^verbatim>\<open>clients\<close> are distinct, as the keys of an object are. Then the list
  sent as \<^verbatim>\<open>users_list\<close> is made of the entries of the registry, in their order: the id
  and the username of every client object whose username is truthy.
\<close>

lemma registry_entries:
  assumes "distinct (map fst xs)"
  shows "List.map_filter (map_of xs) (map fst xs) = map snd xs"
proof -
  have every: "map_of xs (fst e) = Some (snd e)" if "e \<in> set xs" for e
    using assms that by (cases e) simp
  have "filter (\<lambda>k. map_of xs k \<noteq> None) (map fst xs) = map fst xs"
    using every by (intro filter_True) auto
  moreover have "map (the \<circ> map_of xs) (map fst xs) = map snd xs"
    using every by simp
  ultimately show ?thesis
    by (simp add: List.map_filter_def)
qed

lemma users_info_entries:
  "distinct (map fst (clients st)) \<Longrightarrow>
   users_info st =
     map (\<lambda>(k, c). (client_id (objs st c), username (objs st c)))
       (filter (\<lambda>(k, c). truthy (username (objs st c))) (clients st))"
  by (simp add: users_info_def registry_entries filter_map comp_def split_def)

text \<open>
  C9. A \<^verbatim>\<open>set_username\<close> request is accepted exactly when the name has 3 to 20
  characters. Accepted, it updates the client object of the connection (and nothing
  else in the registries) and emits, in this order, the database lookup, \<^verbatim>\<open>username_set\<close>
  to the requester and the broadcast of the online users: the id and username of every
  registered client with a truthy username, the requester's new name included when the
  requester is registered; no error message is sent. Otherwise nothing changes and the
  only thing emitted is the \<^verbatim>\<open>error_message\<close> to the requester.
\<close>

theorem set_username_accepted_iff:
  "(Emit s (Username_set name) \<in> set (snd (set_username eng s name st))) =
     (3 \<le> length name \<and> length name \<le> 20) \<and>
   (if 3 \<le> length name \<and> length name \<le> 20 then
      fst (set_username eng s name st) =
        st\<lparr>objs := (objs st)(s := setUsername eng name (objs st s))\<rparr> \<and>
      Io_emit (Users_list (users_info (fst (set_username eng s name st))))
        \<in> set (snd (set_username eng s name st)) \<and>
      (distinct (map fst (clients st)) \<longrightarrow>
         snd (set_username eng s name st) =
           [Db_select s name, Emit s (Username_set name),
            Io_emit (Users_list
              (map (\<lambda>(k, c). (client_id (((objs st)(s := setUsername eng name (objs st s))) c),
                               username (((objs st)(s := setUsername eng name (objs st s))) c)))
                 (filter (\<lambda>(k, c). truthy
                      (username (((objs st)(s := setUsername eng name (objs st s))) c)))
                    (clients st))))]) \<and>
      \<not> failure_reported s (snd (set_username eng s name st))
    else
      fst (set_username eng s name st) = st \<and>
      snd (set_username eng s name st) = [Emit s (Error_message username_error)])"
proof (cases "3 \<le> length name \<and> length name \<le> 20")
  case False
  then show ?thesis by (auto simp: set_username_def)
next
  case True
  let ?st = "st\<lparr>objs := (objs st)(s := setUsername eng name (objs st s))\<rparr>"
  have r: "set_username eng s name st =
      (?st, [Db_select s name, Emit s (Username_set name), Io_emit (Users_list (users_info ?st))])"
    using True by (simp add: set_username_def Let_def)
  have u: "distinct (map fst (clients st)) \<Longrightarrow>
      users_info ?st =
        map (\<lambda>(k, c). (client_id (((objs st)(s := setUsername eng name (objs st s))) c),
                         username (((objs st)(s := setUsername eng name (objs st s))) c)))
          (filter (\<lambda>(k, c). truthy
                (username (((objs st)(s := setUsername eng name (objs st s))) c)))
             (clients st))"
    using users_info_entries [of ?st] by simp
  show ?thesis
    using True u by (simp add: r failure_reported_def)
qed

theorem set_username_accepted_iff_witness:
  "distinct (map fst (clients lobby)) \<and>
   snd (set_username demo 1 ''robert'' lobby) =
     [Db_select 1 ''robert'', Emit 1 (Username_set ''robert''),
      Io_emit (Users_list [(''_k3j9x0q2a'', Some ''ann''), (''_b7'', Some ''robert'')])] \<and>
   snd (set_username demo 1 ''ro'' lobby) = [Emit 1 (Error_message username_error)]"
proof -
  have d: "distinct (map fst (clients lobby))"
    by (simp add: lobby_def)
  from set_username_accepted_iff [of 1 "''robert''" demo lobby] d
  have a: "snd (set_username demo 1 ''robert'' lobby) =
     [Db_select 1 ''robert'', Emit 1 (Username_set ''robert''),
      Io_emit (Users_list [(''_k3j9x0q2a'', Some ''ann''), (''_b7'', Some ''robert'')])]"
    by (simp add: lobby_def demo_def)
  from set_username_accepted_iff [of 1 "''ro''" demo lobby]
  have b: "snd (set_username demo 1 ''ro'' lobby) = [Emit 1 (Error_message username_error)]"
    by simp
  from d a b show ?thesis by blast
qed

subsection \<open>What a move or a burn emits\<close>

lemma attempt_move_emitted:
  "emitted (attempt_move eng s d st) =
     (if move_accepted eng s d st
      then [Emit s (Move_success (mv_to d)), Game_emitBoard (mv_match_id d)] else [])"
proof (cases "matches st (mv_match_id d)")
  case None
  then show ?thesis
    by (simp add: attempt_move_def move_accepted_def emitted_def js_get_None)
next
  case (Some g)
  then show ?thesis
    by (auto simp: attempt_move_def move_accepted_def emitted_def js_get_Some Let_def
        split: sum.splits prod.splits)
qed

lemma attempt_burn_emitted:
  "emitted (attempt_burn eng s d st) =
     (if burn_accepted eng s d st
      then [Emit s Burn_success, Game_emitBoard (bn_match_id d)] else [])"
proof (cases "matches st (bn_match_id d)")
  case None
  then show ?thesis
    by (simp add: attempt_burn_def burn_accepted_def emitted_def js_get_None)
next
  case (Some g)
  then show ?thesis
    by (auto simp: attempt_burn_def burn_accepted_def emitted_def js_get_Some Let_def
        split: sum.splits prod.splits)
qed

text \<open>
  C7. \<^verbatim>\<open>move_success\<close> is sent exactly when the move is accepted, to the requesting
  socket and with the requested target; \<^verbatim>\<open>burn_success\<close> is sent exactly when the burn
  is accepted, to the requesting socket. A move never yields \<^verbatim>\<open>burn_success\<close> nor a
  burn \<^verbatim>\<open>move_success\<close>, so a rejected attempt yields neither.
\<close>

theorem move_and_burn_replies:
  "(Emit s' (Move_success c) \<in> set (emitted (attempt_move eng s d st))) =
     (move_accepted eng s d st \<and> s' = s \<and> c = mv_to d) \<and>
   (Emit s' Burn_success \<in> set (emitted (attempt_burn eng s b st))) =
     (burn_accepted eng s b st \<and> s' = s) \<and>
   Emit s' Burn_success \<notin> set (emitted (attempt_move eng s d st)) \<and>
   Emit s' (Move_success c) \<notin> set (emitted (attempt_burn eng s b st))"
  by (auto simp: attempt_move_emitted attempt_burn_emitted)

subsection \<open>Starting a match\<close>

lemma collect_players_count:
  "fst (collect_players rand ps n real k) =
     n + length (filter (\<lambda>p. accepted p = ''accepted'') ps)"
  by (induction ps arbitrary: n real k) (simp_all add: genID_Some)

lemma correct_players_fold: "correct_players ps c = fold max (map owner ps) c"
  by (induction ps arbitrary: c) (simp_all add: max_def)

lemma correct_players_Max: "correct_players ps c = Max (insert c (owner ` set ps))"
proof -
  have "Max (set (c # map owner ps)) = fold max (map owner ps) c"
    by (rule Max.set_eq_fold)
  then show ?thesis by (simp add: correct_players_fold)
qed

lemma match_start_cases:
  "match_start eng rand cfg (st, k) =
     (let real = fst (snd (collect_players rand (players cfg) 0 [] k));
          k1 = snd (snd (collect_players rand (players cfg) 0 [] k));
          m = fst (genID rand (Some ''match'') k1)
      in if start_accepted cfg then
           ((st\<lparr>matches := (matches st)(m \<mapsto>
                 game_begin eng (clients st)
                   (set_players eng real (length (accepted_players cfg))
                      (new_Amazons eng m real
                         (new_Board eng (board_size cfg) (piece_config cfg))
                         (turn_timer cfg))))\<rparr>, Suc k1),
            [Game_begin m, Game_emitBoard m])
         else ((st, k1), []))"
proof -
  obtain n real k1 where c: "collect_players rand (players cfg) 0 [] k = (n, real, k1)"
    by (cases "collect_players rand (players cfg) 0 [] k") auto
  have n: "n = length (accepted_players cfg)"
    using collect_players_count [of rand "players cfg" 0 "[]" k] c
    by (simp add: accepted_players_def)
  show ?thesis
    by (simp add: match_start_def c n start_accepted_def Let_def genID_Some)
qed

text \<open>
  C1, as the code has it. A match is created and begun exactly when the number of players
  whose flag is \<^verbatim>\<open>accepted\<close> equals one plus the largest of 0 and the owners in the piece
  configuration: then one match is added to the registry and begun, and its board is
  emitted. Otherwise the registries are as before and nothing is emitted.
\<close>

theorem match_start_created_iff:
  "(if int (length (accepted_players cfg)) = Max (insert 0 (owner ` set (piece_config cfg))) + 1
    then \<exists>m g k'. match_start eng rand cfg (st, k) =
           ((st\<lparr>matches := (matches st)(m \<mapsto> g)\<rparr>, k'), [Game_begin m, Game_emitBoard m])
    else \<exists>k'. match_start eng rand cfg (st, k) = ((st, k'), []))"
  by (auto simp: match_start_cases start_accepted_def correct_players_Max Let_def)

text \<open>
  C1 as stated fails in both directions. With one accepted player and no piece no owner
  index appears in the configuration, and the match is created. With no accepted player
  and a single piece of owner \<open>-1\<close> the count equals the maximum owner plus one, and the
  request is rejected.
\<close>

theorem match_start_counterexample:
  "\<not> seats_equal_max_owner_plus_one solo_cfg \<and>
   snd (match_start demo same_draw solo_cfg (lobby, 0)) =
     [Game_begin ''match_k3j9x0q2a'', Game_emitBoard ''match_k3j9x0q2a''] \<and>
   seats_equal_max_owner_plus_one stray_cfg \<and>
   match_start demo same_draw stray_cfg (lobby, 0) = ((lobby, 0), [])"
  by (simp add: seats_equal_max_owner_plus_one_def solo_cfg_def stray_cfg_def
      accepted_players_def match_start_def genID_Some same_draw_def)

subsection \<open>Invites\<close>

text \<open>
  C10. An accept or a decline that names a pending invite whose sender is in \<^verbatim>\<open>clients\<close>
  sends exactly one \<^verbatim>\<open>invite_response\<close>, to the sender's socket, and removes the invite.
  When the sender is not in \<^verbatim>\<open>clients\<close> the registries stay as they are, the invite
  included, and nothing is emitted; the handler then returns normally unless the
  sender's id is the name of a property of \<^verbatim>\<open>Object.prototype\<close> (ids made by \<^verbatim>\<open>genID\<close>
  never are).
\<close>

theorem invite_answered_once:
  assumes "match_invites st i = Some iv"
  shows "(case map_of (clients st) (inv_from iv) of
            Some r \<Rightarrow>
              match_accept i st =
                Inr (st\<lparr>match_invites := (match_invites st)(i := None)\<rparr>,
                     [Emit r (Invite_response (Some (inv_to iv)) i ''accepted'')]) \<and>
              match_decline i st =
                Inr (st\<lparr>match_invites := (match_invites st)(i := None)\<rparr>,
                     [Emit r (Invite_response (Some (inv_to iv)) i ''declined'')])
          | None \<Rightarrow>
              final_state st (match_accept i st) = st \<and> emitted (match_accept i st) = [] \<and>
              final_state st (match_decline i st) = st \<and> emitted (match_decline i st) = [] \<and>
              (inv_from iv \<notin> set Object_prototype \<longrightarrow>
                 match_accept i st = Inr (st, []) \<and> match_decline i st = Inr (st, [])))"
  using assms
  by (simp add: match_accept_def match_decline_def invite_reply_def js_get_def
      final_state_def emitted_def split: option.splits)

theorem invite_answered_once_witness:
  "match_invites lobby ''matchinvite_1'' = Some \<lparr>inv_from = ''_k3j9x0q2a'', inv_to = ''_b7''\<rparr> \<and>
   match_accept ''matchinvite_1'' lobby =
     Inr (lobby\<lparr>match_invites := (match_invites lobby)(''matchinvite_1'' := None)\<rparr>,
          [Emit 0 (Invite_response (Some ''_b7'') ''matchinvite_1'' ''accepted'')]) \<and>
   match_invites lobby ''matchinvite_2'' = Some \<lparr>inv_from = ''_gone'', inv_to = ''_b7''\<rparr> \<and>
   ''_gone'' \<notin> set Object_prototype \<and>
   match_decline ''matchinvite_2'' lobby = Inr (lobby, []) \<and>
   match_invites (final_state lobby (match_decline ''matchinvite_2'' lobby)) ''matchinvite_2''
     = Some \<lparr>inv_from = ''_gone'', inv_to = ''_b7''\<rparr>"
proof -
  have p1: "match_invites lobby ''matchinvite_1'' =
      Some \<lparr>inv_from = ''_k3j9x0q2a'', inv_to = ''_b7''\<rparr>"
    by (simp add: lobby_def)
  have p2: "match_invites lobby ''matchinvite_2'' = Some \<lparr>inv_from = ''_gone'', inv_to = ''_b7''\<rparr>"
    by (simp add: lobby_def)
  have c1: "map_of (clients lobby) ''_k3j9x0q2a'' = Some 0"
    by (simp add: lobby_def)
  have c2: "map_of (clients lobby) ''_gone'' = None"
    by (simp add: lobby_def)
  have np: "''_gone'' \<notin> set Object_prototype"
    by (simp add: Object_prototype_def)
  have a: "match_accept ''matchinvite_1'' lobby =
     Inr (lobby\<lparr>match_invites := (match_invites lobby)(''matchinvite_1'' := None)\<rparr>,
          [Emit 0 (Invite_response (Some ''_b7'') ''matchinvite_1'' ''accepted'')])"
    using invite_answered_once [OF p1] c1 by simp
  have d: "match_decline ''matchinvite_2'' lobby = Inr (lobby, [])"
    using invite_answered_once [OF p2] c2 np by simp
  have f: "final_state lobby (match_decline ''matchinvite_2'' lobby) = lobby"
    using invite_answered_once [OF p2] c2 by simp
  show ?thesis
    unfolding f using p1 p2 np a d by blast
qed

text \<open>
  No other handler of the model touches the pending invites: an invite leaves the
  registry only through an accept or a decline that finds its sender.
\<close>

lemma other_handlers_keep_invites:
  "match_invites (fst (set_username eng s name st)) = match_invites st"
  "match_invites (fst (fst (match_start eng rand cfg (st, k)))) = match_invites st"
  "match_invites (final_state st (attempt_move eng s d st)) = match_invites st"
  "match_invites (final_state st (attempt_burn eng s b st)) = match_invites st"
  by (auto simp: set_username_def match_start_cases attempt_move_def attempt_burn_def
      final_state_def Let_def js_get_def split: option.splits sum.splits prod.splits)

subsection \<open>Moves and burns\<close>

lemma rejects_cleanly_demo: "rejects_cleanly demo"
  by (auto simp: rejects_cleanly_def demo_def demo_move_def demo_burn_def split: sum.splits)

lemma duel_board_owner [simp]:
  "owner_at (demo_board 4 duel_pieces) (3, 3) = Inr (Some 1)"
  "owner_at (demo_board 4 duel_pieces) (0, 0) = Inr (Some 0)"
  "owner_at (demo_board 4 duel_pieces) (3, 0) = Inr None"
  "owner_at (demo_board 4 duel_pieces) (- 1, 0) = Inl TypeError"
  by (simp_all add: owner_at_def js_index_def demo_board_def duel_pieces_def)

lemma playing_match: "matches playing ''match_k3j9x0q2a'' = Some duel"
  by (simp add: playing_def)

lemma rejected_move_state:
  assumes "rejects_cleanly eng" and "\<not> move_accepted eng s d st"
  shows "final_state st (attempt_move eng s d st) = st"
proof (cases "matches st (mv_match_id d)")
  case None
  then show ?thesis
    by (simp add: attempt_move_def final_state_def js_get_None)
next
  case (Some g)
  have keep: "(matches st)(mv_match_id d \<mapsto> g) = matches st"
    using Some by (rule map_upd_triv)
  show ?thesis
  proof (cases "owner_at (board_of eng g) (mv_from d) =
        Inr (getInternalId eng g (client_id (objs st s))) \<and>
        turn eng g = getInternalId eng g (client_id (objs st s))")
    case False
    then show ?thesis using Some
      by (auto simp: attempt_move_def final_state_def js_get_Some Let_def split: sum.splits)
  next
    case True
    with assms(2) Some have no: "\<not> fst (attemptMove eng (mv_from d) (mv_to d) g)"
      by (simp add: move_accepted_def)
    with assms(1) have "snd (attemptMove eng (mv_from d) (mv_to d) g) = g"
      unfolding rejects_cleanly_def by blast
    with no obtain "attemptMove eng (mv_from d) (mv_to d) g = (False, g)"
      by (cases "attemptMove eng (mv_from d) (mv_to d) g") simp
    then show ?thesis using Some True keep
      by (simp add: attempt_move_def final_state_def js_get_Some Let_def)
  qed
qed

lemma rejected_burn_state:
  assumes "rejects_cleanly eng" and "\<not> burn_accepted eng s d st"
  shows "final_state st (attempt_burn eng s d st) = st"
proof (cases "matches st (bn_match_id d)")
  case None
  then show ?thesis
    by (simp add: attempt_burn_def final_state_def js_get_None)
next
  case (Some g)
  have keep: "(matches st)(bn_match_id d \<mapsto> g) = matches st"
    using Some by (rule map_upd_triv)
  show ?thesis
  proof (cases "turn eng g = getInternalId eng g (client_id (objs st s))")
    case False
    then show ?thesis using Some
      by (simp add: attempt_burn_def final_state_def js_get_Some Let_def)
  next
    case True
    with assms(2) Some have no: "\<not> fst (attemptBurn eng (bn_tile d) g)"
      by (simp add: burn_accepted_def)
    with assms(1) have "snd (attemptBurn eng (bn_tile d) g) = g"
      unfolding rejects_cleanly_def by blast
    with no obtain "attemptBurn eng (bn_tile d) g = (False, g)"
      by (cases "attemptBurn eng (bn_tile d) g") simp
    then show ?thesis using Some True keep
      by (simp add: attempt_burn_def final_state_def js_get_Some Let_def)
  qed
qed

text \<open>
  C2, as the code has it. On an existing match, when the seat of the requesting client
  is not the seat to play, neither handler hands the request to the match: the result
  is the same whatever \<^verbatim>\<open>attemptMove\<close> or \<^verbatim>\<open>attemptBurn\<close> would do. The registries, and
  so the board, are unchanged and nothing is emitted: no reason for the rejection
  reaches the requester. The burn handler returns, and the move handler returns
  whenever the tile at the start coordinates can be read.
\<close>

theorem off_turn_not_forwarded:
  assumes "matches st m = Some g"
    and "turn eng g \<noteq> getInternalId eng g (client_id (objs st s))"
    and "mv_match_id d = m" and "bn_match_id b = m"
  shows "attempt_move (eng\<lparr>attemptMove := f\<rparr>) s d st = attempt_move eng s d st \<and>
     (\<forall>ow. owner_at (board_of eng g) (mv_from d) = Inr ow \<longrightarrow>
        attempt_move eng s d st = Inr (st, [])) \<and>
     final_state st (attempt_move eng s d st) = st \<and>
     emitted (attempt_move eng s d st) = [] \<and>
     \<not> failure_reported s (emitted (attempt_move eng s d st)) \<and>
     attempt_burn (eng\<lparr>attemptBurn := f'\<rparr>) s b st = attempt_burn eng s b st \<and>
     attempt_burn eng s b st = Inr (st, []) \<and>
     \<not> failure_reported s (emitted (attempt_burn eng s b st))"
  using assms
  by (auto simp: attempt_move_def attempt_burn_def js_get_Some Let_def final_state_def
      emitted_def failure_reported_def split: sum.splits)

theorem off_turn_not_forwarded_witness:
  "matches playing ''match_k3j9x0q2a'' = Some duel \<and>
   turn demo duel \<noteq> getInternalId demo duel (client_id (objs playing 1)) \<and>
   owner_at (board_of demo duel) (mv_from off_turn_move) = Inr (Some 1) \<and>
   attempt_move (demo\<lparr>attemptMove := (\<lambda>a b g. (True, g))\<rparr>) 1 off_turn_move playing =
     attempt_move demo 1 off_turn_move playing \<and>
   attempt_move demo 1 off_turn_move playing = Inr (playing, []) \<and>
   attempt_burn demo 1 off_turn_burn playing = Inr (playing, [])"
proof -
  have t: "turn demo duel \<noteq> getInternalId demo duel (client_id (objs playing 1))"
    by (simp add: demo_def duel_def playing_def lobby_def)
  have m: "mv_match_id off_turn_move = ''match_k3j9x0q2a''"
    by (simp add: off_turn_move_def)
  have b: "bn_match_id off_turn_burn = ''match_k3j9x0q2a''"
    by (simp add: off_turn_burn_def)
  have o: "owner_at (board_of demo duel) (mv_from off_turn_move) = Inr (Some 1)"
    by (simp add: demo_def duel_def off_turn_move_def)
  from off_turn_not_forwarded [OF playing_match t m b, of "\<lambda>a b g. (True, g)"] o
  show ?thesis using playing_match t by simp
qed

text \<open>
  C2 as stated fails: no rejection carries \<^verbatim>\<open>NotYourTurn\<close>. Seat 1 moves its piece while
  seat 0 is to play: the handler returns having emitted nothing, so no reason reaches
  the requester. The same seat moving from (0, -1) is not rejected either: the handler
  throws.
\<close>

theorem not_your_turn_counterexample:
  "matches playing (mv_match_id off_turn_move) = Some duel \<and>
   turn demo duel \<noteq> getInternalId demo duel (client_id (objs playing 1)) \<and>
   emitted (attempt_move demo 1 off_turn_move playing) = [] \<and>
   \<not> failure_reported 1 (emitted (attempt_move demo 1 off_turn_move playing)) \<and>
   matches playing (mv_match_id off_turn_outside) = Some duel \<and>
   attempt_move demo 1 off_turn_outside playing = Inl TypeError"
proof -
  have t: "turn demo duel \<noteq> getInternalId demo duel (client_id (objs playing 1))"
    by (simp add: demo_def duel_def playing_def lobby_def)
  have n: "\<not> move_accepted demo 1 off_turn_move playing"
    using t by (simp add: move_accepted_def off_turn_move_def playing_match)
  have e: "emitted (attempt_move demo 1 off_turn_move playing) = []"
    using n by (simp add: attempt_move_emitted)
  have o: "owner_at (board_of demo duel) (mv_from off_turn_outside) = Inl TypeError"
    by (simp add: demo_def duel_def off_turn_outside_def owner_at_def js_index_def
        demo_board_def)
  have x: "attempt_move demo 1 off_turn_outside playing = Inl TypeError"
    using o by (simp add: attempt_move_def js_get_Some Let_def playing_match off_turn_outside_def)
  show ?thesis
    using t e x by (simp add: playing_match off_turn_move_def off_turn_outside_def
        failure_reported_def)
qed

text \<open>
  C3. The handlers call \<^verbatim>\<open>emitBoard\<close> once when a start, a move or a burn is accepted,
  and not at all otherwise. A rejected move or burn leaves the matches as they were,
  given that the match's own \<^verbatim>\<open>attemptMove\<close> and \<^verbatim>\<open>attemptBurn\<close> change nothing when
  they fail.
\<close>

theorem snapshot_iff_accepted:
  assumes "rejects_cleanly eng"
  shows "snapshots (snd (match_start eng rand cfg (st, k))) = (if start_accepted cfg then 1 else 0) \<and>
     snapshots (emitted (attempt_move eng s d st)) = (if move_accepted eng s d st then 1 else 0) \<and>
     snapshots (emitted (attempt_burn eng s b st)) = (if burn_accepted eng s b st then 1 else 0) \<and>
     (\<not> move_accepted eng s d st \<longrightarrow>
        matches (final_state st (attempt_move eng s d st)) = matches st) \<and>
     (\<not> burn_accepted eng s b st \<longrightarrow>
        matches (final_state st (attempt_burn eng s b st)) = matches st)"
proof -
  have "snapshots (snd (match_start eng rand cfg (st, k))) = (if start_accepted cfg then 1 else 0)"
    by (simp add: match_start_cases Let_def snapshots_def)
  moreover have "snapshots (emitted (attempt_move eng s d st)) =
      (if move_accepted eng s d st then 1 else 0)"
    by (simp add: attempt_move_emitted snapshots_def)
  moreover have "snapshots (emitted (attempt_burn eng s b st)) =
      (if burn_accepted eng s b st then 1 else 0)"
    by (simp add: attempt_burn_emitted snapshots_def)
  ultimately show ?thesis
    using rejected_move_state [OF assms, of s d st] rejected_burn_state [OF assms, of s b st]
    by simp
qed

theorem snapshot_iff_accepted_witness:
  "rejects_cleanly demo \<and>
   start_accepted duel_cfg \<and>
   snapshots (snd (match_start demo same_draw duel_cfg (lobby, 0))) = 1 \<and>
   \<not> move_accepted demo 0 blocked_move playing \<and>
   snapshots (emitted (attempt_move demo 0 blocked_move playing)) = 0 \<and>
   matches (final_state playing (attempt_move demo 0 blocked_move playing)) = matches playing \<and>
   \<not> burn_accepted demo 1 off_turn_burn playing \<and>
   matches (final_state playing (attempt_burn demo 1 off_turn_burn playing)) = matches playing"
proof -
  have s: "start_accepted duel_cfg"
    by (simp add: start_accepted_def duel_cfg_def duel_pieces_def accepted_players_def)
  have m: "\<not> move_accepted demo 0 blocked_move playing"
    by (simp add: move_accepted_def blocked_move_def playing_match demo_def duel_def
        demo_move_def)
  have b: "\<not> burn_accepted demo 1 off_turn_burn playing"
    by (simp add: burn_accepted_def off_turn_burn_def playing_match demo_def duel_def
        playing_def lobby_def)
  note a = snapshot_iff_accepted [OF rejects_cleanly_demo]
  from a [where cfg = duel_cfg and rand = same_draw and st = lobby and k = 0]
    a [where s = 0 and d = blocked_move and st = playing]
    a [where s = 1 and b = off_turn_burn and st = playing]
  show ?thesis using rejects_cleanly_demo s m b
    by simp
qed

subsection \<open>The seats of a match\<close>

text \<open>
  The first loop makes one new draw for each accepted bot, in order, and hands the match
  the accepted players with the bots renamed; seat \<open>i\<close> is registered, twice, for the
  id of the \<open>i\<close>-th of them, after the renaming.
\<close>

lemma collect_players_exact:
  "collect_players rand ps n real k =
     (n + length (filter (\<lambda>p. accepted p = ''accepted'') ps),
      real @ seats_from rand k (filter (\<lambda>p. accepted p = ''accepted'') ps),
      k + length (bots (filter (\<lambda>p. accepted p = ''accepted'') ps)))"
  by (induction ps arbitrary: n real k) (simp_all add: genID_Some bots_def)

lemma length_seats_from: "length (seats_from rand k ps) = length ps"
  by (induction ps arbitrary: k) simp_all

lemma enumerate_nth: "enumerate 0 xs = map (\<lambda>i. (i, xs ! i)) [0..<length xs]"
  by (rule nth_equalityI) (simp_all add: nth_enumerate_eq)

lemma set_players_enumerate:
  "set_players eng real (length real) game =
     fold (\<lambda>(i, q) g. setPlayer eng (pid q) i (setPlayer eng (pid q) i g))
       (enumerate 0 real) game"
  by (simp add: set_players_def enumerate_nth fold_map comp_def)

lemma match_start_seats:
  "match_start eng rand cfg (st, k) =
     (let real = seats_from rand k (accepted_players cfg);
          k1 = k + length (bots (accepted_players cfg));
          m = ''match_'' @ rand k1
      in if start_accepted cfg then
           ((st\<lparr>matches := (matches st)(m \<mapsto>
                 game_begin eng (clients st)
                   (fold (\<lambda>(i, q) g. setPlayer eng (pid q) i (setPlayer eng (pid q) i g))
                      (enumerate 0 real)
                      (new_Amazons eng m real
                         (new_Board eng (board_size cfg) (piece_config cfg))
                         (turn_timer cfg))))\<rparr>, Suc k1),
            [Game_begin m, Game_emitBoard m])
         else ((st, k1), []))"
proof -
  have c: "collect_players rand (players cfg) 0 [] k =
      (length (accepted_players cfg), seats_from rand k (accepted_players cfg),
       k + length (bots (accepted_players cfg)))"
    by (simp add: collect_players_exact accepted_players_def)
  have l: "length (accepted_players cfg) = length (seats_from rand k (accepted_players cfg))"
    by (simp add: length_seats_from)
  show ?thesis
    unfolding match_start_cases c Let_def
    by (simp add: genID_Some set_players_enumerate [symmetric] l [symmetric])
qed

text \<open>
  An id made by \<^verbatim>\<open>genID()\<close> for a connection is \<^verbatim>\<open>_\<close> and a drawn text, and a drawn
  text (digits in base 36) has no \<^verbatim>\<open>_\<close>. The id made for a bot that comes with a
  non-empty id is never such an id.
\<close>

lemma named_bot_not_a_connection:
  assumes "t \<noteq> []" and "CHR ''_'' \<notin> set (rand i)"
  shows "fst (genID rand (Some t) j) \<noteq> fst (genID rand None i)"
proof
  assume "fst (genID rand (Some t) j) = fst (genID rand None i)"
  then have e: "t @ ''_'' @ rand j = ''_'' @ rand i"
    using assms(1) by (simp add: genID_def)
  from assms(1) obtain c t' where t: "t = c # t'" by (cases t) auto
  with e have "t' @ ''_'' @ rand j = rand i" by simp
  then have "CHR ''_'' \<in> set (rand i)"
    by (metis in_set_conv_decomp append_Cons)
  with assms(2) show False by simp
qed

text \<open>
  C8 asks that the id given to a bot never be the id of a connection. The client on
  socket 0 holds the id \<^verbatim>\<open>_k3j9x0q2a\<close>, made by \<^verbatim>\<open>genID()\<close>; a bot that comes with an
  empty id gets \<^verbatim>\<open>_\<close> followed by the drawn text, and the draw repeats the one that
  made the client's id. The match is built with a bot that carries the client's id.
\<close>

theorem bot_identity_collision:
  "map_of (clients lobby) ''_k3j9x0q2a'' = Some 0 \<and>
   map_option g_players
     (matches (fst (fst (match_start demo same_draw bot_cfg (lobby, 0)))) ''match_k3j9x0q2a'') =
     Some [\<lparr>pid = ''_b7'', ptype = ''human'', accepted = ''accepted''\<rparr>,
           \<lparr>pid = ''_k3j9x0q2a'', ptype = ''bot'', accepted = ''accepted''\<rparr>] \<and>
   map_option (\<lambda>g. bot_ids_unconnected lobby (g_players g))
     (matches (fst (fst (match_start demo same_draw bot_cfg (lobby, 0)))) ''match_k3j9x0q2a'') =
     Some False"
  by (simp add: match_start_def bot_cfg_def duel_pieces_def genID_Some same_draw_def demo_def
      bot_ids_unconnected_def lobby_def set_players_def)

subsection \<open>Requests that name no match\<close>

text \<open>
  A move or a burn whose match id is not a key of \<^verbatim>\<open>matches\<close> changes nothing and emits
  nothing, unless the id is the name of a property of \<^verbatim>\<open>Object.prototype\<close>.
\<close>

lemma unknown_match_move:
  "matches st (mv_match_id d) = None \<Longrightarrow>
   attempt_move eng s d st =
     (if mv_match_id d \<in> set Object_prototype then Inl TypeError else Inr (st, []))"
  by (simp add: attempt_move_def js_get_None)

lemma unknown_match_burn:
  "matches st (bn_match_id d) = None \<Longrightarrow>
   attempt_burn eng s d st =
     (if bn_match_id d \<in> set Object_prototype then Inl TypeError else Inr (st, []))"
  by (simp add: attempt_burn_def js_get_None)

text \<open>
  C5 asks for a no-op whenever the match id is not a key of the registry. With the id
  \<^verbatim>\<open>constructor\<close> and no match at all, the test \<^verbatim>\<open>!matches[data.match_id]\<close> finds the
  inherited property and both handlers throw.
\<close>

theorem inherited_match_id_throws:
  "matches lobby ''constructor'' = None \<and>
   attempt_move demo 0 constructor_move lobby = Inl TypeError \<and>
   attempt_burn demo 0 constructor_burn lobby = Inl TypeError"
  by (simp add: unknown_match_move unknown_match_burn lobby_def constructor_move_def
      constructor_burn_def Object_prototype_def)

subsection \<open>Start coordinates outside the board\<close>

text \<open>
  On a square board, a move of an existing match whose start coordinates are not both
  in range throws when the handler reads the owner of the start tile.
\<close>

lemma owner_at_outside:
  assumes "length board = n" and "\<forall>row \<in> set board. length row = n"
    and "\<not> (0 \<le> fst c \<and> fst c < int n \<and> 0 \<le> snd c \<and> snd c < int n)"
  shows "owner_at board c = Inl TypeError"
  using assms by (auto simp: owner_at_def js_index_def split: option.splits)

lemma move_from_outside:
  assumes "matches st (mv_match_id d) = Some g"
    and "length (board_of eng g) = n" and "\<forall>row \<in> set (board_of eng g). length row = n"
    and "\<not> (0 \<le> fst (mv_from d) \<and> fst (mv_from d) < int n \<and>
            0 \<le> snd (mv_from d) \<and> snd (mv_from d) < int n)"
  shows "attempt_move eng s d st = Inl TypeError"
  using assms(1) owner_at_outside [OF assms(2-4)]
  by (simp add: attempt_move_def js_get_Some Let_def)

text \<open>
  C6 asks for a rejection that leaves the handler defined at every integer coordinate.
  On the 4 by 4 board of the running match, the move from (-1, 0) throws.
\<close>

theorem move_from_outside_throws:
  "matches playing (mv_match_id outside_move) = Some duel \<and>
   length (board_of demo duel) = 4 \<and>
   attempt_move demo 0 outside_move playing = Inl TypeError"
proof -
  have m: "matches playing (mv_match_id outside_move) = Some duel"
    by (simp add: playing_match outside_move_def)
  have l: "length (board_of demo duel) = 4"
    by (simp add: demo_def duel_def demo_board_def)
  have o: "owner_at (board_of demo duel) (mv_from outside_move) = Inl TypeError"
    by (simp add: demo_def duel_def outside_move_def)
  have "attempt_move demo 0 outside_move playing = Inl TypeError"
    using m o by (simp add: attempt_move_def js_get_Some Let_def)
  with m l show ?thesis by simp
qed

subsection \<open>Rejections\<close>

text \<open>
  C4 as stated fails: a rejection returns no reason. A start with one seat for a
  two-owner board, and a move out of turn, are rejected; the registries are unchanged,
  and nothing at all is emitted, so no failure reaches the requester.
\<close>

theorem silent_rejection_counterexample:
  "\<not> start_accepted short_cfg \<and>
   match_start demo same_draw short_cfg (lobby, 0) = ((lobby, 0), []) \<and>
   \<not> failure_reported 0 (snd (match_start demo same_draw short_cfg (lobby, 0))) \<and>
   \<not> move_accepted demo 1 off_turn_move playing \<and>
   attempt_move demo 1 off_turn_move playing = Inr (playing, []) \<and>
   \<not> failure_reported 1 (emitted (attempt_move demo 1 off_turn_move playing))"
proof -
  have s: "\<not> start_accepted short_cfg"
    by (simp add: start_accepted_def short_cfg_def duel_pieces_def accepted_players_def)
  have m: "\<not> move_accepted demo 1 off_turn_move playing"
    by (simp add: move_accepted_def off_turn_move_def playing_match demo_def duel_def
        playing_def lobby_def)
  have a: "attempt_move demo 1 off_turn_move playing = Inr (playing, [])"
    by (simp add: attempt_move_def js_get_Some Let_def playing_match off_turn_move_def)
      (simp add: demo_def duel_def playing_def lobby_def)
  have r: "match_start demo same_draw short_cfg (lobby, 0) = ((lobby, 0), [])"
    by (simp add: match_start_def short_cfg_def duel_pieces_def)
  show ?thesis
    using s m a r by (simp add: failure_reported_def emitted_def)
qed

text \<open>
  C4, as the code has it. A rejected start leaves the registries unchanged and emits
  nothing. A rejected move or burn, when its handler returns, has left the registries
  unchanged and emitted nothing, given that the match's own \<^verbatim>\<open>attemptMove\<close> and
  \<^verbatim>\<open>attemptBurn\<close> change nothing when they fail. The rejection is silent.
\<close>

theorem rejection_is_silent:
  assumes "rejects_cleanly eng"
  shows "(\<not> start_accepted cfg \<longrightarrow> (\<exists>k'. match_start eng rand cfg (st, k) = ((st, k'), []))) \<and>
     (\<not> move_accepted eng s d st \<longrightarrow>
        (\<forall>st' es. attempt_move eng s d st = Inr (st', es) \<longrightarrow> st' = st \<and> es = [])) \<and>
     (\<not> burn_accepted eng s b st \<longrightarrow>
        (\<forall>st' es. attempt_burn eng s b st = Inr (st', es) \<longrightarrow> st' = st \<and> es = []))"
proof (intro conjI impI allI)
  assume "\<not> start_accepted cfg"
  then show "\<exists>k'. match_start eng rand cfg (st, k) = ((st, k'), [])"
    by (simp add: match_start_cases Let_def)
next
  fix st' es
  assume n: "\<not> move_accepted eng s d st" and r: "attempt_move eng s d st = Inr (st', es)"
  from rejected_move_state [OF assms n] r show "st' = st"
    by (simp add: final_state_def)
  from attempt_move_emitted [of eng s d st] n r show "es = []"
    by (simp add: emitted_def)
next
  fix st' es
  assume n: "\<not> burn_accepted eng s b st" and r: "attempt_burn eng s b st = Inr (st', es)"
  from rejected_burn_state [OF assms n] r show "st' = st"
    by (simp add: final_state_def)
  from attempt_burn_emitted [of eng s b st] n r show "es = []"
    by (simp add: emitted_def)
qed

theorem rejection_is_silent_witness:
  "rejects_cleanly demo \<and>
   \<not> start_accepted short_cfg \<and>
   (\<exists>k'. match_start demo same_draw short_cfg (lobby, 0) = ((lobby, k'), [])) \<and>
   \<not> move_accepted demo 0 blocked_move playing \<and>
   attempt_move demo 0 blocked_move playing = Inr (playing, []) \<and>
   \<not> burn_accepted demo 1 off_turn_burn playing \<and>
   attempt_burn demo 1 off_turn_burn playing = Inr (playing, [])"
proof -
  note a = rejection_is_silent [OF rejects_cleanly_demo]
  have s: "\<not> start_accepted short_cfg"
    by (simp add: start_accepted_def short_cfg_def duel_pieces_def accepted_players_def)
  have m: "\<not> move_accepted demo 0 blocked_move playing"
    by (simp add: move_accepted_def blocked_move_def playing_match demo_def duel_def
        demo_move_def)
  have b: "\<not> burn_accepted demo 1 off_turn_burn playing"
    by (simp add: burn_accepted_def off_turn_burn_def playing_match demo_def duel_def
        playing_def lobby_def)
  obtain st' es where r: "attempt_move demo 0 blocked_move playing = Inr (st', es)"
    by (simp add: attempt_move_def js_get_Some Let_def playing_match blocked_move_def
        demo_def duel_def demo_move_def playing_def lobby_def)
  obtain st'' es' where r': "attempt_burn demo 1 off_turn_burn playing = Inr (st'', es')"
    by (simp add: attempt_burn_def js_get_Some Let_def playing_match off_turn_burn_def
        demo_def duel_def playing_def lobby_def)
  from a [where cfg = short_cfg and rand = same_draw and st = lobby and k = 0] s
  have 1: "\<exists>k'. match_start demo same_draw short_cfg (lobby, 0) = ((lobby, k'), [])"
    by blast
  from a [where s = 0 and d = blocked_move and st = playing] m r
  have 2: "attempt_move demo 0 blocked_move playing = Inr (playing, [])" by simp
  from a [where s = 1 and b = off_turn_burn and st = playing] b r'
  have 3: "attempt_burn demo 1 off_turn_burn playing = Inr (playing, [])" by simp
  show ?thesis using rejects_cleanly_demo s m b 1 2 3 by blast
qed

end
